theory Spec2Isabelle
  imports Main "HOL-Library.Sublist"
begin

section \<open>Strings\<close>

text \<open>
  A JavaScript string is modelled as a \<^typ>\<open>string\<close>: one \<^typ>\<open>char\<close> per code unit, for the
  code units below 256. The white space of \<^verbatim>\<open>String.prototype.trim\<close> and of the regular
  expression class \<^verbatim>\<open>\s\<close> in that range is TAB, LF, VT, FF, CR, SPACE and NBSP.
\<close>

definition isSpace :: "char \<Rightarrow> bool" where
  "isSpace c = (c \<in> set [CHR 0x09, CHR 0x0A, CHR 0x0B, CHR 0x0C, CHR 0x0D, CHR 0x20, CHR 0xA0])"

text \<open>\<^verbatim>\<open>s.trim()\<close>\<close>

definition trim :: "string \<Rightarrow> string" where
  "trim s = rev (dropWhile isSpace (rev (dropWhile isSpace s)))"

text \<open>\<^verbatim>\<open>xs.join(sep)\<close>\<close>

fun join :: "string \<Rightarrow> string list \<Rightarrow> string" where
  "join sep [] = []"
| "join sep [x] = x"
| "join sep (x # y # ys) = x @ sep @ join sep (y # ys)"

text \<open>\<^verbatim>\<open>s.toLowerCase()\<close>, on the letters A to Z.\<close>

definition lowerChar :: "char \<Rightarrow> char" where
  "lowerChar c =
     (case map_of (zip ''ABCDEFGHIJKLMNOPQRSTUVWXYZ'' ''abcdefghijklmnopqrstuvwxyz'') c of
        None \<Rightarrow> c
      | Some d \<Rightarrow> d)"

definition toLowerCase :: "string \<Rightarrow> string" where
  "toLowerCase s = map lowerChar s"

text \<open>\<^verbatim>\<open>s.startsWith(p)\<close> is \<^const>\<open>prefix\<close> \<open>p s\<close>.\<close>

text \<open>\<^verbatim>\<open>.filter(Boolean)\<close> on an array of strings keeps the non-empty ones.\<close>

definition filterBoolean :: "string list \<Rightarrow> string list" where
  "filterBoolean xs = filter (\<lambda>s. s \<noteq> []) xs"

text \<open>\<^verbatim>\<open>s.replace(/\s+/g, ' ')\<close>: every maximal run of white space becomes one space.\<close>

fun collapseFrom :: "bool \<Rightarrow> string \<Rightarrow> string" where
  "collapseFrom inRun [] = []"
| "collapseFrom inRun (c # cs) =
     (if isSpace c then (if inRun then [] else '' '') @ collapseFrom True cs
      else c # collapseFrom False cs)"

definition collapseSpaces :: "string \<Rightarrow> string" where
  "collapseSpaces s = collapseFrom False s"

text \<open>\<^verbatim>\<open>s.replace(/\|/g, '\\|')\<close>: a backslash before every pipe.\<close>

definition escapePipes :: "string \<Rightarrow> string" where
  "escapePipes s = concat (map (\<lambda>c. if c = CHR ''|'' then [CHR 0x5C, CHR ''|''] else [c]) s)"

text \<open>\<^verbatim>\<open>s.replace(/\n/g, ' ')\<close>\<close>

definition newlinesToSpaces :: "string \<Rightarrow> string" where
  "newlinesToSpaces s = map (\<lambda>c. if c = CHR 0x0A then CHR '' '' else c) s"

text \<open>
  \<^verbatim>\<open>tag.replace(/^\((.+)\)$/, '$1')\<close>. The dot matches any character that is not a line
  terminator (LF and CR in this range) and the group needs one character at least, so
  the expression matches exactly the strings \<open>(\<close> \<open>s\<close> \<open>)\<close> with \<open>s\<close> non-empty and on one
  line; the match is the whole string and is replaced by \<open>s\<close>.
\<close>

definition isLineTerminator :: "char \<Rightarrow> bool" where
  "isLineTerminator c = (c = CHR 0x0A \<or> c = CHR 0x0D)"

definition stripParens :: "string \<Rightarrow> string" where
  "stripParens t =
     (if 3 \<le> length t \<and> hd t = CHR ''('' \<and> last t = CHR '')''
         \<and> \<not> list_ex isLineTerminator (butlast (tl t))
      then butlast (tl t) else t)"

text \<open>
  \<^verbatim>\<open>tag.replace(/^\[|\]$/g, '')\<close>: an opening bracket at the start is removed, and a
  closing bracket at the end is removed.
\<close>

definition stripBrackets :: "string \<Rightarrow> string" where
  "stripBrackets t =
     (let t1 = (if t \<noteq> [] \<and> hd t = CHR ''['' then tl t else t)
      in if t1 \<noteq> [] \<and> last t1 = CHR '']'' then butlast t1 else t1)"

section \<open>The document tree\<close>

text \<open>
  The tree that the HTML parser builds. An element carries its \<^verbatim>\<open>tagName\<close> as the DOM
  reports it (upper case for an HTML element, the local name for a MathML or SVG element),
  its class list, its attributes and its child nodes. Text and comment nodes carry their
  data.
\<close>

datatype node =
    Text string
  | Comment string
  | Element (tagName: string) (classList: "string list")
      (attributes: "(string \<times> string) list") (childNodes: "node list")
where
  "tagName (Text s) = []"
| "tagName (Comment s) = []"
| "classList (Text s) = []"
| "classList (Comment s) = []"
| "attributes (Text s) = []"
| "attributes (Comment s) = []"
| "childNodes (Text s) = []"
| "childNodes (Comment s) = []"

fun nodeType :: "node \<Rightarrow> nat" where
  "nodeType (Element t c a ns) = 1"
| "nodeType (Text s) = 3"
| "nodeType (Comment s) = 8"

definition isElement :: "node \<Rightarrow> bool" where
  "isElement n = (nodeType n = 1)"

text \<open>\<^verbatim>\<open>el.children\<close>: the child nodes that are elements.\<close>

definition children :: "node \<Rightarrow> node list" where
  "children el = filter isElement (childNodes el)"

text \<open>\<^verbatim>\<open>el.classList.contains(c)\<close>\<close>

definition hasClass :: "string \<Rightarrow> node \<Rightarrow> bool" where
  "hasClass c el = (c \<in> set (classList el))"

text \<open>\<^verbatim>\<open>el.getAttribute(name) || ''\<close>: an absent attribute reads as the empty string.\<close>

definition getAttribute :: "node \<Rightarrow> string \<Rightarrow> string option" where
  "getAttribute el name = map_of (attributes el) name"

definition attrOrEmpty :: "node \<Rightarrow> string \<Rightarrow> string" where
  "attrOrEmpty el name = (case getAttribute el name of None \<Rightarrow> [] | Some v \<Rightarrow> v)"

text \<open>
  \<^verbatim>\<open>node.textContent\<close>: the data of a text or comment node; for an element, the data of
  the text nodes below it, in document order.
\<close>

fun descendantText :: "node \<Rightarrow> string" where
  "descendantText (Text s) = s"
| "descendantText (Comment s) = []"
| "descendantText (Element t c a ns) = concat (map descendantText ns)"

fun textContent :: "node \<Rightarrow> string" where
  "textContent (Comment s) = s"
| "textContent n = descendantText n"

text \<open>The elements below a node, in document order (the node itself is not among them).\<close>

fun descendants :: "node \<Rightarrow> node list" where
  "descendants (Element t c a ns) =
     concat (map (\<lambda>n. (if isElement n then [n] else []) @ descendants n) ns)"
| "descendants (Text s) = []"
| "descendants (Comment s) = []"

text \<open>
  The selectors the converter uses: a type selector, a class selector, a type with a class,
  and comma-separated lists of these. A type selector is compared with the lower-cased tag
  name.
\<close>

datatype selector = ByTag string | ByClass string | ByTagClass string string

fun matches :: "selector \<Rightarrow> node \<Rightarrow> bool" where
  "matches (ByTag t) el = (toLowerCase (tagName el) = t)"
| "matches (ByClass c) el = hasClass c el"
| "matches (ByTagClass t c) el = (toLowerCase (tagName el) = t \<and> hasClass c el)"

definition matchesAny :: "selector list \<Rightarrow> node \<Rightarrow> bool" where
  "matchesAny sels el = list_ex (\<lambda>s. matches s el) sels"

definition querySelectorAll :: "node \<Rightarrow> selector list \<Rightarrow> node list" where
  "querySelectorAll el sels = filter (matchesAny sels) (descendants el)"

definition querySelector :: "node \<Rightarrow> selector list \<Rightarrow> node option" where
  "querySelector el sels =
     (case querySelectorAll el sels of [] \<Rightarrow> None | x # xs \<Rightarrow> Some x)"

section \<open>Inline content\<close>

text \<open>\<^verbatim>\<open>processMath\<close>\<close>

definition processMath :: "node \<Rightarrow> string" where
  "processMath element =
     (if toLowerCase (tagName element) = ''math''
      then ''$'' @ attrOrEmpty element ''alttext'' @ ''$''
      else (case querySelector element [ByTag ''math''] of
              Some math \<Rightarrow> ''$'' @ attrOrEmpty math ''alttext'' @ ''$''
            | None \<Rightarrow> []))"

text \<open>The citation branch of \<^verbatim>\<open>processInlineContent\<close>.\<close>

definition citeTexts :: "node \<Rightarrow> string list" where
  "citeTexts el =
     filterBoolean (map (\<lambda>r. trim (textContent r))
       (querySelectorAll el [ByTagClass ''a'' ''ltx_ref'', ByTagClass ''span'' ''ltx_ref'']))"

text \<open>
  \<^verbatim>\<open>processInlineContent\<close> walks the child nodes of its argument and appends what each
  contributes; \<open>inlineNode\<close> is the body of that loop, the contribution of one child node.
\<close>

fun inlineNode :: "node \<Rightarrow> string" where
  "inlineNode (Text s) = s"
| "inlineNode (Comment s) = []"
| "inlineNode (Element t c a ns) =
     (let el = Element t c a ns; tagName = toLowerCase t in
      if tagName = ''math'' \<or> hasClass ''ltx_Math'' el then processMath el
      else if hasClass ''ltx_cite'' el then ''['' @ join '', '' (citeTexts el) @ '']''
      else if hasClass ''ltx_ref'' el then
        ''['' @ textContent el @ '']('' @ attrOrEmpty el ''href'' @ '')''
      else if hasClass ''ltx_note'' el then
        (if trim (textContent el) \<noteq> []
         then '' [^'' @ take 50 (trim (textContent el)) @ '']'' else [])
      else if tagName = ''a'' then
        ''['' @ textContent el @ '']('' @ attrOrEmpty el ''href'' @ '')''
      else if tagName = ''br'' then [CHR 0x0A]
      else if hasClass ''ltx_font_bold'' el \<or> tagName = ''b'' \<or> tagName = ''strong'' then
        ''**'' @ concat (map inlineNode ns) @ ''**''
      else if hasClass ''ltx_font_italic'' el \<or> tagName = ''i'' \<or> tagName = ''em'' then
        ''*'' @ concat (map inlineNode ns) @ ''*''
      else if tagName = ''code'' then [CHR 0x60] @ textContent el @ [CHR 0x60]
      else concat (map inlineNode ns))"

definition processInlineContent :: "node \<Rightarrow> string" where
  "processInlineContent element = concat (map inlineNode (childNodes element))"

section \<open>Blocks\<close>

text \<open>\<^verbatim>\<open>processEquation\<close>\<close>

definition equationTag :: "node \<Rightarrow> string" where
  "equationTag element =
     stripParens (case querySelector element [ByClass ''ltx_tag''] of
                    Some tagEl \<Rightarrow> trim (textContent tagEl)
                  | None \<Rightarrow> [])"

definition processEquation :: "node \<Rightarrow> string" where
  "processEquation element =
     (case querySelector element [ByTag ''math''] of
        Some math \<Rightarrow>
          (let alttext = attrOrEmpty math ''alttext''; tag = equationTag element in
           ''\<newline>$$\<newline>'' @ alttext @ ''\<newline>$$''
             @ (if tag \<noteq> [] then '' ('' @ tag @ '')'' else []) @ ''\<newline>'')
      | None \<Rightarrow> [])"

text \<open>\<^verbatim>\<open>processFigure\<close>\<close>

definition processFigure :: "node \<Rightarrow> string" where
  "processFigure figure =
     (let md0 = ''\<newline>'';
          md1 = (case querySelector figure [ByTag ''img''] of
                   Some img \<Rightarrow>
                     (let src = attrOrEmpty img ''src'';
                          alt = (if attrOrEmpty img ''alt'' \<noteq> [] then attrOrEmpty img ''alt''
                                 else ''Figure'');
                          fullSrc = (if prefix ''/'' src then ''https://ar5iv.labs.arxiv.org'' @ src
                                     else src)
                      in md0 @ ''!['' @ alt @ '']('' @ fullSrc @ '')\<newline>'')
                 | None \<Rightarrow> md0);
          md2 = (case querySelector figure [ByTag ''figcaption''] of
                   Some caption \<Rightarrow>
                     md1 @ ''\<newline>*'' @ trim (processInlineContent caption) @ ''*\<newline>''
                 | None \<Rightarrow> md1)
      in md2 @ ''\<newline>'')"

text \<open>
  \<^verbatim>\<open>processTable\<close>. \<open>cellText\<close> is the function mapped over the cells of a row;
  \<open>tableRow\<close> is the body of the loop over the rows, on the pair of the text so far and the
  flag \<^verbatim>\<open>isFirstRow\<close>.
\<close>

definition cellText :: "node \<Rightarrow> string" where
  "cellText cell = trim (newlinesToSpaces (escapePipes (processInlineContent cell)))"

definition tableRow :: "string \<times> bool \<Rightarrow> node \<Rightarrow> string \<times> bool" where
  "tableRow st row =
     (let md = fst st; isFirstRow = snd st;
          cells = querySelectorAll row [ByTag ''td'', ByTag ''th''];
          cellTexts = map cellText cells;
          md1 = md @ ''| '' @ join '' | '' cellTexts @ '' |\<newline>''
      in if isFirstRow
         then (md1 @ ''| '' @ join '' | '' (map (\<lambda>x. ''---'') cellTexts) @ '' |\<newline>'', False)
         else (md1, isFirstRow))"

definition processTable :: "node \<Rightarrow> string" where
  "processTable table =
     (let rows = querySelectorAll table [ByTag ''tr''] in
      if length rows = 0 then []
      else fst (foldl tableRow (''\<newline>'', True) rows) @ ''\<newline>'')"

text \<open>
  \<^verbatim>\<open>processParagraph\<close>. \<open>paragraphChild\<close> is the body of the loop over the element
  children: what one child appends.
\<close>

definition paragraphChild :: "node \<Rightarrow> string" where
  "paragraphChild child =
     (if tagName child = ''P'' \<and> hasClass ''ltx_p'' child then
        processInlineContent child @ ''\<newline>\<newline>''
      else if tagName child = ''TABLE'' then
        (if hasClass ''ltx_equation'' child \<or> hasClass ''ltx_eqn_table'' child then
           processEquation child
         else if hasClass ''ltx_tabular'' child then processTable child
         else [])
      else if tagName child = ''FIGURE'' \<and> hasClass ''ltx_figure'' child then
        processFigure child
      else [])"

definition processParagraph :: "node \<Rightarrow> string" where
  "processParagraph para =
     (let md = concat (map paragraphChild (children para)) in
      if md = [] then processInlineContent para @ ''\<newline>\<newline>'' else md)"

text \<open>\<^verbatim>\<open>processSectionContent\<close>, with the heading tags and the theorem branch named.\<close>

definition isHeadingTag :: "node \<Rightarrow> bool" where
  "isHeadingTag child =
     (tagName child = ''H1'' \<or> tagName child = ''H2'' \<or> tagName child = ''H3'' \<or>
      tagName child = ''H4'' \<or> tagName child = ''H5'' \<or> tagName child = ''H6'')"

definition processTheorem :: "node \<Rightarrow> string" where
  "processTheorem child =
     (let title = (case querySelector child [ByClass ''ltx_title''] of
                     Some titleEl \<Rightarrow> trim (processInlineContent titleEl)
                   | None \<Rightarrow> []);
          md = (if title \<noteq> [] then ''\<newline>**'' @ title @ ''**\<newline>\<newline>'' else [])
      in md @ concat (map processParagraph (querySelectorAll child [ByClass ''ltx_para''])))"

fun processSectionContent :: "node \<Rightarrow> nat \<Rightarrow> string" where
  "processSectionContent (Element t c a ns) level =
     concat (map (\<lambda>child.
       if isHeadingTag child then
         (if hasClass ''ltx_title'' child then
            replicate level (CHR ''#'') @ '' '' @ trim (processInlineContent child)
              @ ''\<newline>\<newline>''
          else [])
       else if hasClass ''ltx_para'' child then processParagraph child
       else if hasClass ''ltx_subsection'' child then processSectionContent child (level + 1)
       else if hasClass ''ltx_subsubsection'' child then processSectionContent child (level + 2)
       else if tagName child = ''FIGURE'' \<and> hasClass ''ltx_figure'' child then
         processFigure child
       else if tagName child = ''TABLE'' then
         (if hasClass ''ltx_equation'' child \<or> hasClass ''ltx_eqn_table'' child then
            processEquation child
          else if hasClass ''ltx_tabular'' child then processTable child
          else [])
       else if hasClass ''ltx_theorem'' child \<or> hasClass ''ltx_proof'' child then
         processTheorem child
       else if tagName child = ''DIV'' \<and> hasClass ''ltx_logical-block'' child then
         processSectionContent child level
       else []) (filter isElement ns))"
| "processSectionContent (Text s) level = []"
| "processSectionContent (Comment s) level = []"

section \<open>Document regions\<close>

text \<open>
  The parsed document, with its root element. A query on the document ranges over every
  element of the tree, the root included.
\<close>

datatype document = Document (documentElement: node)

definition docElements :: "document \<Rightarrow> node list" where
  "docElements doc =
     (if isElement (documentElement doc) then [documentElement doc] else [])
       @ descendants (documentElement doc)"

definition docQuerySelectorAll :: "document \<Rightarrow> selector list \<Rightarrow> node list" where
  "docQuerySelectorAll doc sels = filter (matchesAny sels) (docElements doc)"

definition docQuerySelector :: "document \<Rightarrow> selector list \<Rightarrow> node option" where
  "docQuerySelector doc sels =
     (case docQuerySelectorAll doc sels of [] \<Rightarrow> None | x # xs \<Rightarrow> Some x)"

text \<open>
  The child combinator \<^verbatim>\<open>parent > child\<close>: the elements of the tree, in document order,
  each paired with its parent element.
\<close>

fun childPairs :: "node \<Rightarrow> (node \<times> node) list" where
  "childPairs (Element t c a ns) =
     concat (map (\<lambda>n. (if isElement n then [(Element t c a ns, n)] else []) @ childPairs n) ns)"
| "childPairs (Text s) = []"
| "childPairs (Comment s) = []"

definition docQueryChildren :: "document \<Rightarrow> selector \<Rightarrow> selector \<Rightarrow> node list" where
  "docQueryChildren doc psel csel =
     map snd (filter (\<lambda>pc. matches psel (fst pc) \<and> matches csel (snd pc))
       (childPairs (documentElement doc)))"

definition extractTitle :: "document \<Rightarrow> string" where
  "extractTitle doc =
     (case docQuerySelector doc [ByTagClass ''h1'' ''ltx_title_document''] of
        Some titleEl \<Rightarrow> trim (processInlineContent titleEl)
      | None \<Rightarrow> [])"

definition extractAuthors :: "document \<Rightarrow> string" where
  "extractAuthors doc =
     (case docQuerySelector doc [ByClass ''ltx_authors''] of
        Some authorsEl \<Rightarrow> collapseSpaces (trim (processInlineContent authorsEl))
      | None \<Rightarrow> [])"

definition extractAbstract :: "document \<Rightarrow> string" where
  "extractAbstract doc =
     (case docQuerySelector doc [ByClass ''ltx_abstract''] of
        Some abstractEl \<Rightarrow>
          (case querySelector abstractEl [ByTagClass ''p'' ''ltx_p''] of
             Some pEl \<Rightarrow> trim (processInlineContent pEl)
           | None \<Rightarrow> [])
      | None \<Rightarrow> [])"

definition extractBody :: "document \<Rightarrow> string" where
  "extractBody doc =
     concat (map (\<lambda>sec. processSectionContent sec 2)
       (docQueryChildren doc (ByTagClass ''article'' ''ltx_document'')
          (ByTagClass ''section'' ''ltx_section'')))"

definition extractAppendix :: "document \<Rightarrow> string" where
  "extractAppendix doc =
     concat (map (\<lambda>appendix. processSectionContent appendix 2)
       (docQueryChildren doc (ByTagClass ''article'' ''ltx_document'')
          (ByTagClass ''section'' ''ltx_appendix'')))"

text \<open>\<^verbatim>\<open>extractReferences\<close>; \<open>bibItem\<close> is the body of its loop over the entries.\<close>

definition bibItem :: "node \<Rightarrow> string" where
  "bibItem item =
     (let tagEl = (case querySelector item [ByTagClass ''span'' ''ltx_tag_bibitem''] of
                     Some e \<Rightarrow> Some e
                   | None \<Rightarrow> querySelector item [ByTagClass ''span'' ''ltx_bibtag'']);
          tag = stripBrackets (case tagEl of Some e \<Rightarrow> trim (textContent e) | None \<Rightarrow> []);
          blockTexts = filterBoolean (map (\<lambda>b. trim (processInlineContent b))
                         (querySelectorAll item [ByTagClass ''span'' ''ltx_bibblock'']))
      in if tag \<noteq> [] then ''['' @ tag @ ''] '' @ join '' '' blockTexts @ ''\<newline>\<newline>''
         else join '' '' blockTexts @ ''\<newline>\<newline>'')"

definition extractReferences :: "document \<Rightarrow> string" where
  "extractReferences doc =
     (case docQuerySelector doc [ByTagClass ''section'' ''ltx_bibliography''] of
        None \<Rightarrow> []
      | Some bibSection \<Rightarrow>
          (case querySelector bibSection [ByTagClass ''ul'' ''ltx_biblist''] of
             None \<Rightarrow> ''## References\<newline>\<newline>''
           | Some bibList \<Rightarrow>
               ''## References\<newline>\<newline>''
                 @ concat (map bibItem (querySelectorAll bibList [ByTagClass ''li'' ''ltx_bibitem'']))))"

section \<open>Fetching\<close>

text \<open>
  A promise of the runtime either resolves with a value or rejects with a reason: the
  promise of \<^verbatim>\<open>fetch\<close> rejects when no answer arrives (the host is not found, the
  connection is reset), and the promise of \<^verbatim>\<open>response.text()\<close> rejects when the body
  cannot be read. An answer of a mirror has a status and the promise of its text.
  \<^verbatim>\<open>fetch\<close> is state passing on the log of the requests issued so far; the User-Agent
  header is the same constant in both calls and is left out of the request.
\<close>

datatype 'a settled = Rejects string | Resolves 'a

datatype redirect = Manual | Follow

record request =
  url :: string
  redirect :: redirect

record response =
  status :: nat
  responseText :: "string settled"

definition ok :: "response \<Rightarrow> bool" where
  "ok r = (200 \<le> status r \<and> status r \<le> 299)"

type_synonym network = "request \<Rightarrow> response settled"

definition fetch ::
  "network \<Rightarrow> request \<Rightarrow> request list \<Rightarrow> response settled \<times> request list" where
  "fetch net req log = (net req, log @ [req])"

text \<open>
  The errors that leave \<^verbatim>\<open>fetchAr5iv\<close>: the two it throws itself, with the status they
  report, and the reason of a rejected promise, which it passes on as it is, since it
  awaits without catching.
\<close>

datatype error =
    PaperHtmlNotAvailable nat
  | FailedToFetch string nat
  | Rejected string

definition AR5IV_BASE :: string where
  "AR5IV_BASE = ''https://ar5iv.labs.arxiv.org/html/''"

definition ARXIV_HTML_BASE :: string where
  "ARXIV_HTML_BASE = ''https://arxiv.org/html/''"

text \<open>\<^verbatim>\<open>return response.text()\<close>\<close>

definition returnText :: "response \<Rightarrow> request list \<Rightarrow> (error + string) \<times> request list" where
  "returnText r log =
     (case responseText r of
        Rejects reason \<Rightarrow> (Inl (Rejected reason), log)
      | Resolves html \<Rightarrow> (Inr html, log))"

definition fetchAr5iv ::
  "network \<Rightarrow> string \<Rightarrow> request list \<Rightarrow> (error + string) \<times> request list" where
  "fetchAr5iv net arxivId log =
     (let ar5ivUrl = AR5IV_BASE @ arxivId;
          (ar5ivFetch, log1) = fetch net \<lparr>url = ar5ivUrl, redirect = Manual\<rparr> log
      in case ar5ivFetch of
           Rejects reason \<Rightarrow> (Inl (Rejected reason), log1)
         | Resolves ar5ivResponse \<Rightarrow>
             if status ar5ivResponse = 307 then
               (let arxivUrl = ARXIV_HTML_BASE @ arxivId;
                    (arxivFetch, log2) = fetch net \<lparr>url = arxivUrl, redirect = Follow\<rparr> log1
                in case arxivFetch of
                     Rejects reason \<Rightarrow> (Inl (Rejected reason), log2)
                   | Resolves arxivResponse \<Rightarrow>
                       if \<not> ok arxivResponse
                       then (Inl (PaperHtmlNotAvailable (status arxivResponse)), log2)
                       else returnText arxivResponse log2)
             else if \<not> ok ar5ivResponse
               then (Inl (FailedToFetch ar5ivUrl (status ar5ivResponse)), log1)
             else returnText ar5ivResponse log1)"

section \<open>Assembling the levels\<close>

text \<open>
  \<^verbatim>\<open>convertAr5ivToMarkdown\<close> after the fetch and the parse: \<open>part\<close> is the string the
  caller passes, and the last branch is the \<^verbatim>\<open>default\<close> of the switch.
\<close>

definition convertDocument :: "document \<Rightarrow> string \<Rightarrow> string" where
  "convertDocument doc part =
     (let title = extractTitle doc;
          authors = extractAuthors doc;
          md0 = (if title \<noteq> [] then ''# '' @ title @ ''\<newline>\<newline>'' else []);
          md = (if authors \<noteq> [] \<and> part \<noteq> ''appendix''
                then md0 @ ''**Authors:** '' @ authors @ ''\<newline>\<newline>'' else md0)
      in if part = ''abstract'' then
           md @ ''## Abstract\<newline>\<newline>'' @ extractAbstract doc @ ''\<newline>''
         else if part = ''body'' then
           (let abstractForBody = extractAbstract doc in
            (if abstractForBody \<noteq> []
             then md @ ''## Abstract\<newline>\<newline>'' @ abstractForBody @ ''\<newline>\<newline>''
             else md) @ extractBody doc)
         else if part = ''appendix'' then md @ extractAppendix doc
         else
           (let abstract = extractAbstract doc;
                md1 = (if abstract \<noteq> []
                       then md @ ''## Abstract\<newline>\<newline>'' @ abstract @ ''\<newline>\<newline>''
                       else md);
                md2 = md1 @ extractBody doc;
                md3 = md2 @ extractReferences doc;
                appendix = extractAppendix doc
            in if appendix \<noteq> []
               then md3 @ ''---\<newline>\<newline># Appendix\<newline>\<newline>'' @ appendix
               else md3))"

text \<open>
  The whole conversion. The HTML parser of the library is a parameter: a function from
  the fetched text to the tree.
\<close>

definition convertAr5ivToMarkdown ::
  "network \<Rightarrow> (string \<Rightarrow> document) \<Rightarrow> string \<Rightarrow> string \<Rightarrow> request list
     \<Rightarrow> (error + string) \<times> request list" where
  "convertAr5ivToMarkdown net parse arxivId part log =
     (case fetchAr5iv net arxivId log of
        (Inl e, log1) \<Rightarrow> (Inl e, log1)
      | (Inr html, log1) \<Rightarrow> (Inr (convertDocument (parse html) part), log1))"

section \<open>The specification's descriptions\<close>

text \<open>
  The pipe table of the specification, on the cell texts of the rows: every row is a line
  of cells between pipes, and a line of \<open>---\<close> cells, as many as the first row has cells,
  follows the first row.
\<close>

definition pipeLine :: "string list \<Rightarrow> string" where
  "pipeLine cells = ''| '' @ join '' | '' cells @ '' |\<newline>''"

definition pipeTable :: "string list list \<Rightarrow> string" where
  "pipeTable rows =
     (case rows of
        [] \<Rightarrow> []
      | r # rs \<Rightarrow>
          ''\<newline>'' @ pipeLine r @ pipeLine (replicate (length r) ''---'')
            @ concat (map pipeLine rs) @ ''\<newline>'')"

definition rowTexts :: "node \<Rightarrow> string list" where
  "rowTexts row = map cellText (querySelectorAll row [ByTag ''td'', ByTag ''th''])"

text \<open>Every pipe of a string stands directly after a backslash.\<close>

fun pipesEscapedFrom :: "bool \<Rightarrow> string \<Rightarrow> bool" where
  "pipesEscapedFrom afterBackslash [] = True"
| "pipesEscapedFrom afterBackslash (c # cs) =
     ((c \<noteq> CHR ''|'' \<or> afterBackslash) \<and> pipesEscapedFrom (c = CHR 0x5C) cs)"

text \<open>
  The block classes of a child of a section container, each with the branches of
  \<^verbatim>\<open>processSectionContent\<close> that come before its own.
\<close>

definition isSectionTitle :: "node \<Rightarrow> bool" where
  "isSectionTitle child = (isHeadingTag child \<and> hasClass ''ltx_title'' child)"

definition isSubsection :: "node \<Rightarrow> bool" where
  "isSubsection child =
     (\<not> isHeadingTag child \<and> \<not> hasClass ''ltx_para'' child \<and> hasClass ''ltx_subsection'' child)"

definition isSubsubsection :: "node \<Rightarrow> bool" where
  "isSubsubsection child =
     (\<not> isHeadingTag child \<and> \<not> hasClass ''ltx_para'' child \<and> \<not> hasClass ''ltx_subsection'' child
      \<and> hasClass ''ltx_subsubsection'' child)"

definition isLogicalGroup :: "node \<Rightarrow> bool" where
  "isLogicalGroup child =
     (tagName child = ''DIV'' \<and> hasClass ''ltx_logical-block'' child
      \<and> \<not> hasClass ''ltx_para'' child \<and> \<not> hasClass ''ltx_subsection'' child
      \<and> \<not> hasClass ''ltx_subsubsection'' child
      \<and> \<not> hasClass ''ltx_theorem'' child \<and> \<not> hasClass ''ltx_proof'' child)"

text \<open>The shapes that \<^verbatim>\<open>processParagraph\<close> recognises among the children of a paragraph.\<close>

definition recognizedShape :: "node \<Rightarrow> bool" where
  "recognizedShape child =
     ((tagName child = ''P'' \<and> hasClass ''ltx_p'' child)
      \<or> (tagName child = ''TABLE'' \<and> (hasClass ''ltx_equation'' child
            \<or> hasClass ''ltx_eqn_table'' child \<or> hasClass ''ltx_tabular'' child))
      \<or> (tagName child = ''FIGURE'' \<and> hasClass ''ltx_figure'' child))"

text \<open>The lines and blocks that the assembler puts together.\<close>

definition titleLine :: "document \<Rightarrow> string" where
  "titleLine doc =
     (if extractTitle doc \<noteq> [] then ''# '' @ extractTitle doc @ ''\<newline>\<newline>'' else [])"

definition authorsLine :: "document \<Rightarrow> string" where
  "authorsLine doc =
     (if extractAuthors doc \<noteq> [] then ''**Authors:** '' @ extractAuthors doc @ ''\<newline>\<newline>''
      else [])"

definition abstractBlock :: "document \<Rightarrow> string" where
  "abstractBlock doc =
     (if extractAbstract doc \<noteq> []
      then ''## Abstract\<newline>\<newline>'' @ extractAbstract doc @ ''\<newline>\<newline>'' else [])"

definition appendixBlock :: "document \<Rightarrow> string" where
  "appendixBlock doc =
     (if extractAppendix doc \<noteq> []
      then ''---\<newline>\<newline># Appendix\<newline>\<newline>'' @ extractAppendix doc else [])"

text \<open>The failure that the specification names for the fetcher.\<close>

definition paperHtmlNotAvailable :: "error + string \<Rightarrow> bool" where
  "paperHtmlNotAvailable result =
     (case result of Inl (PaperHtmlNotAvailable n) \<Rightarrow> True | _ \<Rightarrow> False)"

section \<open>Example trees\<close>

definition exCitation :: node where
  "exCitation =
     Element ''CITE'' [''ltx_cite'', ''ltx_citemacro_cite''] []
       [Element ''A'' [''ltx_ref''] [(''href'', ''#bib.bib12'')] [Text ''12''],
        Text '', '',
        Element ''SPAN'' [''ltx_ref'', ''ltx_missing_citation''] [] [Text ''7'']]"

definition exEmptyCitation :: node where
  "exEmptyCitation = Element ''CITE'' [''ltx_cite''] [] [Text ''see above'']"

definition exTable :: node where
  "exTable =
     Element ''TABLE'' [''ltx_tabular''] []
       [Element ''TR'' [''ltx_tr''] []
          [Element ''TH'' [''ltx_th''] [] [Text ''A''], Element ''TH'' [''ltx_th''] [] [Text ''B'']],
        Element ''TR'' [''ltx_tr''] []
          [Element ''TD'' [''ltx_td''] [] [Text ''1''], Element ''TD'' [''ltx_td''] [] [Text ''2'']]]"

definition exEmptyTable :: node where
  "exEmptyTable = Element ''TABLE'' [''ltx_tabular''] [] [Text ''none'']"

definition exCell :: node where
  "exCell = Element ''TD'' [''ltx_td''] [] [Text '' a|b'', Element ''BR'' [] [] [], Text ''c '']"

definition exMath :: node where
  "exMath = Element ''math'' [''ltx_Math''] [(''alttext'', ''x=y'')] []"

definition exEquation :: node where
  "exEquation =
     Element ''TABLE'' [''ltx_equation'', ''ltx_eqn_table''] []
       [Element ''TR'' [] []
          [Element ''TD'' [] [] [exMath],
           Element ''TD'' [] []
             [Element ''SPAN'' [''ltx_tag'', ''ltx_tag_equation''] [] [Text ''(3)'']]]]"

definition exEquationBareTag :: node where
  "exEquationBareTag =
     Element ''TABLE'' [''ltx_equation'', ''ltx_eqn_table''] []
       [Element ''TR'' [] []
          [Element ''TD'' [] [] [exMath],
           Element ''TD'' [] []
             [Element ''SPAN'' [''ltx_tag'', ''ltx_tag_equation''] [] [Text ''()'']]]]"

definition exSubsubsection :: node where
  "exSubsubsection =
     Element ''SECTION'' [''ltx_subsubsection''] []
       [Element ''H4'' [''ltx_title''] [] [Text ''Details'']]"

definition exSubsection :: node where
  "exSubsection =
     Element ''SECTION'' [''ltx_subsection''] []
       [Element ''H3'' [''ltx_title''] [] [Text ''Setup''], exSubsubsection]"

definition exLogicalBlock :: node where
  "exLogicalBlock =
     Element ''DIV'' [''ltx_logical-block''] []
       [Element ''H5'' [''ltx_title''] [] [Text ''Aside'']]"

definition exSection :: node where
  "exSection =
     Element ''SECTION'' [''ltx_section''] []
       [Element ''H2'' [''ltx_title''] [] [Text ''Intro''], exSubsection, exLogicalBlock]"

definition exParagraph :: node where
  "exParagraph =
     Element ''DIV'' [''ltx_para''] []
       [Text ''Hello '', Element ''SPAN'' [''ltx_text''] [] [Text ''world'']]"

definition exDocument :: document where
  "exDocument =
     Document (Element ''HTML'' [] []
       [Element ''BODY'' [] []
          [Element ''ARTICLE'' [''ltx_document''] []
             [Element ''H1'' [''ltx_title'', ''ltx_title_document''] [] [Text ''T''],
              Element ''DIV'' [''ltx_authors''] [] [Text ''A. Author''],
              Element ''DIV'' [''ltx_abstract''] [] [Element ''P'' [''ltx_p''] [] [Text ''Short.'']],
              Element ''SECTION'' [''ltx_section''] []
                [Element ''H2'' [''ltx_title''] [] [Text ''Intro'']],
              Element ''SECTION'' [''ltx_bibliography''] [] [],
              Element ''SECTION'' [''ltx_appendix''] []
                [Element ''H2'' [''ltx_title''] [] [Text ''Extra'']]]]])"

definition exBareDocument :: document where
  "exBareDocument =
     Document (Element ''HTML'' [] []
       [Element ''BODY'' [] []
          [Element ''ARTICLE'' [''ltx_document''] []
             [Element ''H1'' [''ltx_title'', ''ltx_title_document''] [] [Text ''T''],
              Element ''SECTION'' [''ltx_section''] []
                [Element ''H2'' [''ltx_title''] [] [Text ''Intro'']]]]])"

text \<open>
  Five networks. The primary mirror redirects and the secondary one has the paper; the
  primary mirror redirects and the secondary one has not; the primary mirror has the
  paper; the primary mirror redirects and the secondary one cannot be reached; no mirror
  can be reached.
\<close>

definition exFallbackNetwork :: network where
  "exFallbackNetwork req =
     (if redirect req = Manual then Resolves \<lparr>status = 307, responseText = Resolves []\<rparr>
      else Resolves \<lparr>status = 200, responseText = Resolves ''<html></html>''\<rparr>)"

definition exMissingNetwork :: network where
  "exMissingNetwork req =
     (if redirect req = Manual then Resolves \<lparr>status = 307, responseText = Resolves []\<rparr>
      else Resolves \<lparr>status = 404, responseText = Resolves ''not found''\<rparr>)"

definition exDirectNetwork :: network where
  "exDirectNetwork req = Resolves \<lparr>status = 200, responseText = Resolves ''<html></html>''\<rparr>"

definition exUnreachableNetwork :: network where
  "exUnreachableNetwork req =
     (if redirect req = Manual then Resolves \<lparr>status = 307, responseText = Resolves []\<rparr>
      else Rejects ''fetch failed'')"

definition exOfflineNetwork :: network where
  "exOfflineNetwork req = Rejects ''fetch failed''"

section \<open>Facts about the string helpers\<close>

lemma set_trim: "set (trim s) \<subseteq> set s"
proof -
  have "set (trim s) \<subseteq> set (dropWhile isSpace s)"
    unfolding trim_def using set_dropWhileD by fastforce
  also have "\<dots> \<subseteq> set s"
    using set_dropWhileD by fastforce
  finally show ?thesis .
qed

lemma rev_dropWhile_rev:
  "rev (dropWhile P (rev s)) = take (length s - length (takeWhile P (rev s))) s"
  by (simp add: dropWhile_eq_drop rev_drop)

lemma newlinesToSpaces_free: "CHR 0x0A \<notin> set (newlinesToSpaces s)"
  by (auto simp: newlinesToSpaces_def)

lemma pipesEscaped_weaken: "pipesEscapedFrom False s \<Longrightarrow> pipesEscapedFrom b s"
  by (cases s) auto

lemma pipesEscaped_escapePipes: "pipesEscapedFrom b (escapePipes s)"
  by (induction s arbitrary: b) (auto simp: escapePipes_def)

lemma pipesEscaped_newlinesToSpaces:
  "pipesEscapedFrom b s \<Longrightarrow> pipesEscapedFrom b (newlinesToSpaces s)"
  by (induction s arbitrary: b) (auto simp: newlinesToSpaces_def)

lemma pipesEscaped_dropWhile:
  "pipesEscapedFrom b s \<Longrightarrow> pipesEscapedFrom b (dropWhile isSpace s)"
proof (induction s arbitrary: b)
  case Nil
  then show ?case by simp
next
  case (Cons c cs)
  show ?case
  proof (cases "isSpace c")
    case True
    then have "c \<noteq> CHR 0x5C"
      by (auto simp: isSpace_def)
    with Cons.prems have "pipesEscapedFrom False cs"
      by simp
    then have "pipesEscapedFrom False (dropWhile isSpace cs)"
      by (rule Cons.IH)
    then show ?thesis
      using True by (simp add: pipesEscaped_weaken)
  next
    case False
    then show ?thesis
      using Cons.prems by simp
  qed
qed

lemma pipesEscaped_take: "pipesEscapedFrom b s \<Longrightarrow> pipesEscapedFrom b (take n s)"
  by (induction s arbitrary: b n) (auto simp: take_Cons split: nat.splits)

lemma pipesEscaped_trim: "pipesEscapedFrom b s \<Longrightarrow> pipesEscapedFrom b (trim s)"
  unfolding trim_def rev_dropWhile_rev
  by (intro pipesEscaped_take pipesEscaped_dropWhile)

lemma stripParens_enclosed:
  "s \<noteq> [] \<Longrightarrow> \<not> list_ex isLineTerminator s \<Longrightarrow> stripParens (''('' @ s @ '')'') = s"
  by (cases s) (simp_all add: stripParens_def butlast_append)

lemma stripParens_not_open: "\<not> prefix ''('' t \<Longrightarrow> stripParens t = t"
  by (cases t) (auto simp: stripParens_def)

lemma stripParens_not_closed: "\<not> suffix '')'' t \<Longrightarrow> stripParens t = t"
proof (cases "t = []")
  case True
  then show ?thesis
    by (simp add: stripParens_def)
next
  case False
  assume "\<not> suffix '')'' t"
  moreover have "t = butlast t @ [last t]"
    using False by simp
  ultimately have "last t \<noteq> CHR '')''"
    by (metis suffixI)
  then show ?thesis
    by (simp add: stripParens_def)
qed

lemma stripParens_bare: "stripParens ''()'' = ''()''"
  by (simp add: stripParens_def)

section \<open>Inline citations\<close>

text \<open>
  C4. An element reaches the citation branch of the inline renderer when it is not a
  formula and carries the citation class. It is rendered as an opening bracket, the
  texts of the reference pointers below it joined with a comma and a space, and a closing
  bracket. The pointers are all the elements below the citation, in document order, that
  are an anchor or a span with the reference class; the text of a pointer is its text
  content without the white space around it, and a pointer with no text left contributes
  nothing. With no pointer below it a citation renders as \<open>[]\<close>, and the citation around
  an anchor \<open>12\<close> and a span \<open>7\<close> renders as \<open>[12, 7]\<close>.
\<close>

theorem citation_rendering:
  "(toLowerCase t \<noteq> ''math'' \<and> \<not> hasClass ''ltx_Math'' (Element t c a ns)
      \<and> hasClass ''ltx_cite'' (Element t c a ns) \<longrightarrow>
      inlineNode (Element t c a ns) =
        ''['' @ join '', '' (filterBoolean (map (\<lambda>r. trim (textContent r))
           (filter (matchesAny [ByTagClass ''a'' ''ltx_ref'', ByTagClass ''span'' ''ltx_ref''])
              (descendants (Element t c a ns))))) @ '']''
      \<and> (filter (matchesAny [ByTagClass ''a'' ''ltx_ref'', ByTagClass ''span'' ''ltx_ref''])
              (descendants (Element t c a ns)) = [] \<longrightarrow>
           inlineNode (Element t c a ns) = ''[]''))
   \<and> inlineNode exCitation = ''[12, 7]''"
proof -
  have "inlineNode exCitation = ''[12, 7]''"
    unfolding exCitation_def by code_simp
  then show ?thesis
    by (simp add: Let_def citeTexts_def querySelectorAll_def filterBoolean_def)
qed

theorem citation_rendering_witness:
  "toLowerCase ''CITE'' \<noteq> ''math''
   \<and> \<not> hasClass ''ltx_Math'' (Element ''CITE'' [''ltx_cite''] [] [Text ''see above''])
   \<and> hasClass ''ltx_cite'' (Element ''CITE'' [''ltx_cite''] [] [Text ''see above''])
   \<and> filter (matchesAny [ByTagClass ''a'' ''ltx_ref'', ByTagClass ''span'' ''ltx_ref''])
        (descendants (Element ''CITE'' [''ltx_cite''] [] [Text ''see above''])) = []
   \<and> inlineNode (Element ''CITE'' [''ltx_cite''] [] [Text ''see above'']) = ''[]''"
proof -
  have h1: "toLowerCase ''CITE'' \<noteq> ''math''"
    by code_simp
  have h2: "\<not> hasClass ''ltx_Math'' (Element ''CITE'' [''ltx_cite''] [] [Text ''see above''])"
    by code_simp
  have h3: "hasClass ''ltx_cite'' (Element ''CITE'' [''ltx_cite''] [] [Text ''see above''])"
    by code_simp
  have h4: "filter (matchesAny [ByTagClass ''a'' ''ltx_ref'', ByTagClass ''span'' ''ltx_ref''])
        (descendants (Element ''CITE'' [''ltx_cite''] [] [Text ''see above''])) = []"
    by code_simp
  from h1 h2 h3 h4
    citation_rendering [of "''CITE''" "[''ltx_cite'']" "[]" "[Text ''see above'']"]
  show ?thesis
    by blast
qed

section \<open>Tables\<close>

lemma tableRow_first:
  "tableRow (md, True) row =
     (md @ pipeLine (rowTexts row) @ pipeLine (replicate (length (rowTexts row)) ''---''), False)"
  by (simp add: tableRow_def Let_def pipeLine_def rowTexts_def map_replicate_const)

lemma tableRow_later: "tableRow (md, False) row = (md @ pipeLine (rowTexts row), False)"
  by (simp add: tableRow_def Let_def pipeLine_def rowTexts_def)

lemma foldl_tableRow_later:
  "foldl tableRow (md, False) rows =
     (md @ concat (map (\<lambda>row. pipeLine (rowTexts row)) rows), False)"
  by (induction rows arbitrary: md) (simp_all add: tableRow_later)

lemma processTable_pipeTable:
  "processTable table = pipeTable (map rowTexts (querySelectorAll table [ByTag ''tr'']))"
proof (cases "querySelectorAll table [ByTag ''tr'']")
  case Nil
  then show ?thesis
    by (simp add: processTable_def pipeTable_def)
next
  case (Cons r rs)
  then show ?thesis
    by (simp add: processTable_def pipeTable_def tableRow_first foldl_tableRow_later comp_def)
qed

lemma cellText_no_newline: "CHR 0x0A \<notin> set (cellText cell)"
  using set_trim newlinesToSpaces_free unfolding cellText_def by blast

lemma cellText_pipesEscaped: "pipesEscapedFrom False (cellText cell)"
  unfolding cellText_def
  by (intro pipesEscaped_trim pipesEscaped_newlinesToSpaces pipesEscaped_escapePipes)

text \<open>
  C5. The loop of the table renderer, with its first-row flag, produces the pipe table of
  the rows in document order: a line per row, and after the first line a line of \<open>---\<close>
  cells, one for each cell of the first row. A table without rows renders as the empty
  string. The text of a cell is its inline rendering with a backslash put before every
  pipe, every newline replaced by one space, and the white space around it removed; so
  it holds no newline, and each of its pipes stands directly after a backslash. The grid
  with the header cells A and B and the data cells 1 and 2 renders as the three lines
  \<open>| A | B |\<close>, \<open>| --- | --- |\<close> and \<open>| 1 | 2 |\<close>.
\<close>

theorem table_rendering:
  "processTable table = pipeTable (map rowTexts (querySelectorAll table [ByTag ''tr'']))
   \<and> (querySelectorAll table [ByTag ''tr''] = [] \<longrightarrow> processTable table = [])
   \<and> rowTexts row =
       map (\<lambda>cell. trim (newlinesToSpaces (escapePipes (processInlineContent cell))))
         (querySelectorAll row [ByTag ''td'', ByTag ''th''])
   \<and> CHR 0x0A \<notin> set (cellText cell)
   \<and> pipesEscapedFrom False (cellText cell)
   \<and> processTable exTable =
       ''\<newline>| A | B |\<newline>| --- | --- |\<newline>| 1 | 2 |\<newline>\<newline>''"
proof -
  have ex: "processTable exTable =
      ''\<newline>| A | B |\<newline>| --- | --- |\<newline>| 1 | 2 |\<newline>\<newline>''"
    unfolding exTable_def by code_simp
  have texts: "rowTexts row =
       map (\<lambda>cell. trim (newlinesToSpaces (escapePipes (processInlineContent cell))))
         (querySelectorAll row [ByTag ''td'', ByTag ''th''])"
    by (simp add: rowTexts_def cellText_def)
  have none: "querySelectorAll table [ByTag ''tr''] = [] \<longrightarrow> processTable table = []"
    by (simp add: processTable_def)
  from ex texts none processTable_pipeTable cellText_no_newline cellText_pipesEscaped
  show ?thesis
    by blast
qed

theorem table_rendering_witness:
  "querySelectorAll exEmptyTable [ByTag ''tr''] = []
   \<and> processTable exEmptyTable = []
   \<and> cellText exCell = [CHR ''a'', CHR 0x5C, CHR ''|'', CHR ''b'', CHR '' '', CHR ''c'']
   \<and> pipesEscapedFrom False (cellText exCell)"
proof -
  have h: "querySelectorAll exEmptyTable [ByTag ''tr''] = []"
    unfolding exEmptyTable_def by code_simp
  have c: "cellText exCell = [CHR ''a'', CHR 0x5C, CHR ''|'', CHR ''b'', CHR '' '', CHR ''c'']"
    unfolding exCell_def by code_simp
  from h c table_rendering [of exEmptyTable exEmptyTable exCell]
  show ?thesis
    by blast
qed

section \<open>Display equations\<close>

text \<open>
  The equation renderer in general. A block equation with a formula below it renders as a
  newline, \<open>$$\<close>, a newline, the alternative text of the first formula, a newline,
  \<open>$$\<close>, then, when the tag is not empty, a space and the tag in parentheses, and a
  newline. The tag is the text of the first tag element without the white space around
  it (empty without a tag element), and one pair of parentheses is stripped from it when
  they enclose a text that is not empty and holds no line break. The tag \<open>()\<close> is left
  as it is, and so is a tag that does not both start with an opening and end with a
  closing parenthesis. The formula \<open>x=y\<close> with the tag \<open>(3)\<close> renders as \<open>$$\<close>,
  \<open>x=y\<close>, \<open>$$ (3)\<close> on three lines.
\<close>

theorem equation_rendering:
  "(querySelector el [ByTag ''math''] = Some m \<longrightarrow>
      processEquation el =
        ''\<newline>$$\<newline>'' @ attrOrEmpty m ''alttext'' @ ''\<newline>$$''
          @ (if equationTag el = [] then [] else '' ('' @ equationTag el @ '')'') @ ''\<newline>'')
   \<and> (querySelector el [ByClass ''ltx_tag''] = None \<longrightarrow> equationTag el = [])
   \<and> (querySelector el [ByClass ''ltx_tag''] = Some tagEl \<longrightarrow>
        (trim (textContent tagEl) = ''('' @ s @ '')'' \<and> s \<noteq> [] \<and> \<not> list_ex isLineTerminator s
           \<longrightarrow> equationTag el = s)
        \<and> (trim (textContent tagEl) = ''()'' \<longrightarrow> equationTag el = ''()'')
        \<and> (\<not> prefix ''('' (trim (textContent tagEl)) \<or> \<not> suffix '')'' (trim (textContent tagEl))
           \<longrightarrow> equationTag el = trim (textContent tagEl)))
   \<and> processEquation exEquation = ''\<newline>$$\<newline>x=y\<newline>$$ (3)\<newline>''"
proof -
  have ex: "processEquation exEquation = ''\<newline>$$\<newline>x=y\<newline>$$ (3)\<newline>''"
    unfolding exEquation_def exMath_def by code_simp
  have a: "querySelector el [ByTag ''math''] = Some m \<longrightarrow>
      processEquation el =
        ''\<newline>$$\<newline>'' @ attrOrEmpty m ''alttext'' @ ''\<newline>$$''
          @ (if equationTag el = [] then [] else '' ('' @ equationTag el @ '')'') @ ''\<newline>''"
    by (simp add: processEquation_def Let_def)
  have b: "querySelector el [ByClass ''ltx_tag''] = None \<longrightarrow> equationTag el = []"
    by (simp add: equationTag_def stripParens_def)
  have c: "querySelector el [ByClass ''ltx_tag''] = Some tagEl \<longrightarrow>
        (trim (textContent tagEl) = ''('' @ s @ '')'' \<and> s \<noteq> [] \<and> \<not> list_ex isLineTerminator s
           \<longrightarrow> equationTag el = s)
        \<and> (trim (textContent tagEl) = ''()'' \<longrightarrow> equationTag el = ''()'')
        \<and> (\<not> prefix ''('' (trim (textContent tagEl)) \<or> \<not> suffix '')'' (trim (textContent tagEl))
           \<longrightarrow> equationTag el = trim (textContent tagEl))"
    using stripParens_enclosed [of s] stripParens_bare
      stripParens_not_open [of "trim (textContent tagEl)"]
      stripParens_not_closed [of "trim (textContent tagEl)"]
    by (auto simp: equationTag_def)
  from a b c ex show ?thesis
    by blast
qed

theorem equation_rendering_witness:
  "querySelector exEquation [ByTag ''math''] = Some exMath
   \<and> querySelector exEquation [ByClass ''ltx_tag'']
       = Some (Element ''SPAN'' [''ltx_tag'', ''ltx_tag_equation''] [] [Text ''(3)''])
   \<and> trim (textContent (Element ''SPAN'' [''ltx_tag'', ''ltx_tag_equation''] [] [Text ''(3)'']))
       = ''('' @ ''3'' @ '')''
   \<and> ''3'' \<noteq> [] \<and> \<not> list_ex isLineTerminator ''3''
   \<and> equationTag exEquation = ''3''
   \<and> processEquation exEquation =
       ''\<newline>$$\<newline>'' @ attrOrEmpty exMath ''alttext'' @ ''\<newline>$$ (3)\<newline>''"
proof -
  have m: "querySelector exEquation [ByTag ''math''] = Some exMath"
    unfolding exEquation_def exMath_def by code_simp
  have t: "querySelector exEquation [ByClass ''ltx_tag'']
       = Some (Element ''SPAN'' [''ltx_tag'', ''ltx_tag_equation''] [] [Text ''(3)''])"
    unfolding exEquation_def exMath_def by code_simp
  have x: "trim (textContent (Element ''SPAN'' [''ltx_tag'', ''ltx_tag_equation''] [] [Text ''(3)'']))
       = ''('' @ ''3'' @ '')''"
    by code_simp
  have l: "\<not> list_ex isLineTerminator ''3''"
    by code_simp
  have n: "''3'' \<noteq> []"
    by simp
  have a: "attrOrEmpty exMath ''alttext'' = ''x=y''"
    unfolding exMath_def by code_simp
  from m t x l n
    equation_rendering [of exEquation exMath
      "Element ''SPAN'' [''ltx_tag'', ''ltx_tag_equation''] [] [Text ''(3)'']" "''3''"]
  have "equationTag exEquation = ''3''
    \<and> processEquation exEquation = ''\<newline>$$\<newline>x=y\<newline>$$ (3)\<newline>''"
    by blast
  with m t x l n show ?thesis
    by (simp add: a)
qed

text \<open>
  C6. The specification strips the pair of enclosing parentheses from the tag whenever the
  pair is there, and the comment in the source says the same (\<^verbatim>\<open>Remove surrounding
  parentheses if present\<close>). The renderer does so when the pair encloses a text that is not
  empty and holds no line break, as shown above. On the tag \<open>()\<close> its regular expression,
  which asks for one character at least between the parentheses, strips nothing; the
  renderer then puts its own parentheses around the tag, and the block ends in
  \<open>$$ (())\<close>, where stripping the pair leaves an empty tag and a block that ends in
  \<open>$$\<close>.
\<close>

theorem equation_bare_tag:
  "querySelector exEquationBareTag [ByTag ''math''] = Some exMath
   \<and> querySelector exEquationBareTag [ByClass ''ltx_tag'']
       = Some (Element ''SPAN'' [''ltx_tag'', ''ltx_tag_equation''] [] [Text ''()''])
   \<and> trim (textContent (Element ''SPAN'' [''ltx_tag'', ''ltx_tag_equation''] [] [Text ''()'']))
       = ''('' @ [] @ '')''
   \<and> equationTag exEquationBareTag = ''()''
   \<and> processEquation exEquationBareTag = ''\<newline>$$\<newline>x=y\<newline>$$ (())\<newline>''
   \<and> processEquation exEquationBareTag \<noteq> ''\<newline>$$\<newline>x=y\<newline>$$\<newline>''"
  unfolding exEquationBareTag_def exMath_def by code_simp

section \<open>Heading depth\<close>

lemma hasClass_isElement: "hasClass cl n \<Longrightarrow> isElement n"
  by (cases n) (simp_all add: hasClass_def isElement_def)

lemma isHeadingTag_isElement: "isHeadingTag n \<Longrightarrow> isElement n"
  by (cases n) (simp_all add: isHeadingTag_def isElement_def)

lemma sectionTitle_step:
  assumes "isSectionTitle child"
  shows "processSectionContent (Element t c a (pre @ child # post)) level =
     processSectionContent (Element t c a pre) level
       @ replicate level (CHR ''#'') @ '' '' @ trim (processInlineContent child) @ ''\<newline>\<newline>''
       @ processSectionContent (Element t c a post) level"
  using assms isHeadingTag_isElement [of child] by (simp add: isSectionTitle_def)

lemma subsection_step:
  assumes "isSubsection child"
  shows "processSectionContent (Element t c a (pre @ child # post)) level =
     processSectionContent (Element t c a pre) level
       @ processSectionContent child (level + 1)
       @ processSectionContent (Element t c a post) level"
  using assms hasClass_isElement [of "''ltx_subsection''" child] by (simp add: isSubsection_def)

lemma subsubsection_step:
  assumes "isSubsubsection child"
  shows "processSectionContent (Element t c a (pre @ child # post)) level =
     processSectionContent (Element t c a pre) level
       @ processSectionContent child (level + 2)
       @ processSectionContent (Element t c a post) level"
  using assms hasClass_isElement [of "''ltx_subsubsection''" child]
  by (simp add: isSubsubsection_def)

lemma logicalGroup_step:
  assumes "isLogicalGroup child"
  shows "processSectionContent (Element t c a (pre @ child # post)) level =
     processSectionContent (Element t c a pre) level
       @ processSectionContent child level
       @ processSectionContent (Element t c a post) level"
proof -
  from assms have tag: "tagName child = ''DIV''" and cls: "hasClass ''ltx_logical-block'' child"
    and no: "\<not> hasClass ''ltx_para'' child" "\<not> hasClass ''ltx_subsection'' child"
      "\<not> hasClass ''ltx_subsubsection'' child" "\<not> hasClass ''ltx_theorem'' child"
      "\<not> hasClass ''ltx_proof'' child"
    by (simp_all add: isLogicalGroup_def)
  from tag have "\<not> isHeadingTag child"
    by (simp add: isHeadingTag_def)
  with tag cls no hasClass_isElement [OF cls] show ?thesis
    by simp
qed

text \<open>
  C7. The body and the appendix render each of their top-level sections at depth 2. Inside
  a container rendered at some depth, a title heading is written with that many hash
  signs, a subsection child is rendered at that depth plus one, a subsubsection child at
  that depth plus two, and a logical block at that same depth; what stands before and
  after the child is rendered at the depth of the container.
\<close>

theorem heading_depth:
  "extractBody doc =
     concat (map (\<lambda>sec. processSectionContent sec 2)
       (docQueryChildren doc (ByTagClass ''article'' ''ltx_document'')
          (ByTagClass ''section'' ''ltx_section'')))
   \<and> extractAppendix doc =
     concat (map (\<lambda>sec. processSectionContent sec 2)
       (docQueryChildren doc (ByTagClass ''article'' ''ltx_document'')
          (ByTagClass ''section'' ''ltx_appendix'')))
   \<and> (isSectionTitle child \<longrightarrow>
        processSectionContent (Element t c a (pre @ child # post)) level =
          processSectionContent (Element t c a pre) level
            @ replicate level (CHR ''#'') @ '' '' @ trim (processInlineContent child)
            @ ''\<newline>\<newline>''
            @ processSectionContent (Element t c a post) level)
   \<and> (isSubsection child \<longrightarrow>
        processSectionContent (Element t c a (pre @ child # post)) level =
          processSectionContent (Element t c a pre) level
            @ processSectionContent child (level + 1)
            @ processSectionContent (Element t c a post) level)
   \<and> (isSubsubsection child \<longrightarrow>
        processSectionContent (Element t c a (pre @ child # post)) level =
          processSectionContent (Element t c a pre) level
            @ processSectionContent child (level + 2)
            @ processSectionContent (Element t c a post) level)
   \<and> (isLogicalGroup child \<longrightarrow>
        processSectionContent (Element t c a (pre @ child # post)) level =
          processSectionContent (Element t c a pre) level
            @ processSectionContent child level
            @ processSectionContent (Element t c a post) level)"
  using sectionTitle_step [of child t c a pre post level]
    subsection_step [of child t c a pre post level]
    subsubsection_step [of child t c a pre post level]
    logicalGroup_step [of child t c a pre post level]
  by (simp add: extractBody_def extractAppendix_def)

theorem heading_depth_witness:
  "isSectionTitle (Element ''H2'' [''ltx_title''] [] [Text ''Intro''])
   \<and> isSubsection exSubsection
   \<and> isSubsubsection exSubsubsection
   \<and> isLogicalGroup exLogicalBlock
   \<and> processSectionContent exSection 2 =
       ''## Intro\<newline>\<newline>'' @ processSectionContent exSubsection 3
         @ processSectionContent exLogicalBlock 2
   \<and> processSectionContent exSubsection 3 =
       ''### Setup\<newline>\<newline>'' @ processSectionContent exSubsubsection 5
   \<and> processSectionContent exSubsubsection 5 = ''##### Details\<newline>\<newline>''
   \<and> processSectionContent exLogicalBlock 2 = ''## Aside\<newline>\<newline>''"
proof -
  have h1: "isSectionTitle (Element ''H2'' [''ltx_title''] [] [Text ''Intro''])"
    by code_simp
  have h2: "isSubsection exSubsection"
    unfolding exSubsection_def by code_simp
  have h3: "isSubsubsection exSubsubsection"
    unfolding exSubsubsection_def by code_simp
  have h4: "isLogicalGroup exLogicalBlock"
    unfolding exLogicalBlock_def by code_simp
  have e0: "processSectionContent (Element ''SECTION'' [''ltx_section''] [] []) 2 = []"
    by simp
  have t1: "trim (processInlineContent (Element ''H2'' [''ltx_title''] [] [Text ''Intro''])) = ''Intro''"
    by code_simp
  have e1: "processSectionContent (Element ''SECTION'' [''ltx_section''] []
      [Element ''H2'' [''ltx_title''] [] [Text ''Intro'']]) 2 = ''## Intro\<newline>\<newline>''"
    using h1 e0 t1
      heading_depth [of _ "Element ''H2'' [''ltx_title''] [] [Text ''Intro'']" "''SECTION''"
        "[''ltx_section'']" "[]" "[]" "[]" 2]
    by (simp add: numeral_2_eq_2)
  have e2: "processSectionContent (Element ''SECTION'' [''ltx_subsection''] []
      [Element ''H3'' [''ltx_title''] [] [Text ''Setup'']]) 3 = ''### Setup\<newline>\<newline>''"
    by code_simp
  have e3: "processSectionContent (Element ''SECTION'' [''ltx_subsection''] [] []) 3 = []"
    by simp
  have e4: "processSectionContent exSubsubsection 5 = ''##### Details\<newline>\<newline>''"
    unfolding exSubsubsection_def by code_simp
  have e5: "processSectionContent exLogicalBlock 2 = ''## Aside\<newline>\<newline>''"
    unfolding exLogicalBlock_def by code_simp
  have s1: "processSectionContent exSection 2 =
      ''## Intro\<newline>\<newline>'' @ processSectionContent exSubsection 3
        @ processSectionContent (Element ''SECTION'' [''ltx_section''] [] [exLogicalBlock]) 2"
    using h2 e1
      heading_depth [of _ exSubsection "''SECTION''" "[''ltx_section'']" "[]"
        "[Element ''H2'' [''ltx_title''] [] [Text ''Intro'']]" "[exLogicalBlock]" 2]
    by (simp add: exSection_def)
  have s2: "processSectionContent (Element ''SECTION'' [''ltx_section''] [] [exLogicalBlock]) 2 =
      processSectionContent exLogicalBlock 2"
    using h4 e0
      heading_depth [of _ exLogicalBlock "''SECTION''" "[''ltx_section'']" "[]" "[]" "[]" 2]
    by simp
  have s3: "processSectionContent exSubsection 3 =
      ''### Setup\<newline>\<newline>'' @ processSectionContent exSubsubsection 5"
    using h3 e2 e3
      heading_depth [of _ exSubsubsection "''SECTION''" "[''ltx_subsection'']" "[]"
        "[Element ''H3'' [''ltx_title''] [] [Text ''Setup'']]" "[]" 3]
    by (simp add: exSubsection_def)
  from h1 h2 h3 h4 s1 s2 s3 e4 e5 show ?thesis
    by simp
qed

section \<open>Paragraphs\<close>

lemma paragraphChild_unrecognized: "\<not> recognizedShape child \<Longrightarrow> paragraphChild child = []"
  by (auto simp: recognizedShape_def paragraphChild_def)

text \<open>
  C10. When no element child of a paragraph container is an inline paragraph, an equation
  table, a tabular table or a figure, the paragraph renders as the inline content of the
  whole container followed by two newlines. A paragraph never renders as the empty
  string.
\<close>

theorem paragraph_fallback:
  "((\<forall>child \<in> set (children para). \<not> recognizedShape child) \<longrightarrow>
      processParagraph para = processInlineContent para @ ''\<newline>\<newline>'')
   \<and> processParagraph para \<noteq> []"
proof -
  have "concat (map paragraphChild (children para)) = []"
    if "\<forall>child \<in> set (children para). \<not> recognizedShape child"
    using that by (simp add: paragraphChild_unrecognized)
  then show ?thesis
    by (simp add: processParagraph_def Let_def)
qed

theorem paragraph_fallback_witness:
  "children exParagraph = [Element ''SPAN'' [''ltx_text''] [] [Text ''world'']]
   \<and> \<not> recognizedShape (Element ''SPAN'' [''ltx_text''] [] [Text ''world''])
   \<and> processInlineContent exParagraph = ''Hello world''
   \<and> processParagraph exParagraph = ''Hello world\<newline>\<newline>''"
proof -
  have c: "children exParagraph = [Element ''SPAN'' [''ltx_text''] [] [Text ''world'']]"
    unfolding exParagraph_def by code_simp
  have r: "\<not> recognizedShape (Element ''SPAN'' [''ltx_text''] [] [Text ''world''])"
    by code_simp
  have h: "\<forall>child \<in> set (children exParagraph). \<not> recognizedShape child"
    using c r by simp
  have i: "processInlineContent exParagraph = ''Hello world''"
    unfolding exParagraph_def by code_simp
  from h i paragraph_fallback [of exParagraph]
  have "processParagraph exParagraph = ''Hello world\<newline>\<newline>''"
    by simp
  with c r i show ?thesis
    by simp
qed

section \<open>The assembled levels\<close>

lemma convertDocument_abstract:
  "convertDocument doc ''abstract'' =
     titleLine doc @ authorsLine doc @ ''## Abstract\<newline>\<newline>'' @ extractAbstract doc
       @ ''\<newline>''"
  by (simp add: convertDocument_def Let_def titleLine_def authorsLine_def)

lemma convertDocument_body:
  "convertDocument doc ''body'' =
     titleLine doc @ authorsLine doc @ abstractBlock doc @ extractBody doc"
  by (simp add: convertDocument_def Let_def titleLine_def authorsLine_def abstractBlock_def)

lemma convertDocument_appendix:
  "convertDocument doc ''appendix'' = titleLine doc @ extractAppendix doc"
  by (simp add: convertDocument_def Let_def titleLine_def)

lemma convertDocument_default:
  assumes "part \<noteq> ''abstract''" and "part \<noteq> ''body''" and "part \<noteq> ''appendix''"
  shows "convertDocument doc part =
     titleLine doc @ authorsLine doc @ abstractBlock doc @ extractBody doc
       @ extractReferences doc @ appendixBlock doc"
  using assms
  by (simp add: convertDocument_def Let_def titleLine_def authorsLine_def abstractBlock_def
      appendixBlock_def)

lemma convertDocument_all:
  "convertDocument doc ''all'' =
     titleLine doc @ authorsLine doc @ abstractBlock doc @ extractBody doc
       @ extractReferences doc @ appendixBlock doc"
  by (rule convertDocument_default) simp_all

lemma convertDocument_title_authors:
  assumes "part \<noteq> ''appendix''"
  shows "prefix (titleLine doc @ authorsLine doc) (convertDocument doc part)"
proof -
  consider "part = ''abstract''" | "part = ''body''"
    | "part \<noteq> ''abstract''" "part \<noteq> ''body''"
    by blast
  then show ?thesis
  proof cases
    case 1
    then show ?thesis
      by (simp add: convertDocument_abstract)
  next
    case 2
    then show ?thesis
      by (simp add: convertDocument_body)
  next
    case 3
    with assms show ?thesis
      by (simp add: convertDocument_default)
  qed
qed

text \<open>
  C1. At every level the output starts with the title line (nothing when the title is
  empty); at every level but \<open>appendix\<close> the authors line follows it (nothing when there
  are no authors). At the level \<open>appendix\<close> the output is the title line and the appendix
  alone, with no authors line, so it is empty exactly when the document has neither a
  title nor appendix content.
\<close>

theorem title_and_authors:
  "prefix (titleLine doc) (convertDocument doc part)
   \<and> (part \<noteq> ''appendix'' \<longrightarrow>
        prefix (titleLine doc @ authorsLine doc) (convertDocument doc part))
   \<and> convertDocument doc ''appendix'' = titleLine doc @ extractAppendix doc
   \<and> (convertDocument doc ''appendix'' = [] \<longleftrightarrow> extractTitle doc = [] \<and> extractAppendix doc = [])"
proof -
  have "prefix (titleLine doc) (convertDocument doc part)"
  proof (cases "part = ''appendix''")
    case True
    then show ?thesis
      by (simp add: convertDocument_appendix)
  next
    case False
    then have "prefix (titleLine doc @ authorsLine doc) (convertDocument doc part)"
      by (rule convertDocument_title_authors)
    then show ?thesis
      using append_prefixD by blast
  qed
  moreover have "titleLine doc = [] \<longleftrightarrow> extractTitle doc = []"
    by (simp add: titleLine_def)
  ultimately show ?thesis
    using convertDocument_title_authors [of part doc]
    by (simp add: convertDocument_appendix)
qed

theorem title_and_authors_witness:
  "''body'' \<noteq> ''appendix''
   \<and> titleLine exDocument = ''# T\<newline>\<newline>''
   \<and> authorsLine exDocument = ''**Authors:** A. Author\<newline>\<newline>''
   \<and> prefix (''# T\<newline>\<newline>'' @ ''**Authors:** A. Author\<newline>\<newline>'')
       (convertDocument exDocument ''body'')
   \<and> convertDocument exDocument ''appendix'' = ''# T\<newline>\<newline>'' @ extractAppendix exDocument"
proof -
  have t: "titleLine exDocument = ''# T\<newline>\<newline>''"
    unfolding exDocument_def by code_simp
  have a: "authorsLine exDocument = ''**Authors:** A. Author\<newline>\<newline>''"
    unfolding exDocument_def by code_simp
  from t a title_and_authors [of exDocument "''body''"] show ?thesis
    by simp
qed

text \<open>
  C3. The output at the level \<open>all\<close> is the output at the level \<open>body\<close> (title line,
  authors line, abstract block and body), followed by the references and by the appendix
  block; so the output at \<open>body\<close> is a prefix of the output at \<open>all\<close>.
\<close>

theorem body_prefix_of_all:
  "convertDocument doc ''body'' =
     titleLine doc @ authorsLine doc @ abstractBlock doc @ extractBody doc
   \<and> convertDocument doc ''all'' =
     convertDocument doc ''body'' @ extractReferences doc @ appendixBlock doc
   \<and> prefix (convertDocument doc ''body'') (convertDocument doc ''all'')"
  by (simp add: convertDocument_body convertDocument_all)

theorem body_prefix_of_all_witness:
  "convertDocument exDocument ''body'' =
     ''# T\<newline>\<newline>**Authors:** A. Author\<newline>\<newline>## Abstract\<newline>\<newline>Short.\<newline>\<newline>## Intro\<newline>\<newline>''
   \<and> convertDocument exDocument ''all'' =
     convertDocument exDocument ''body''
       @ ''## References\<newline>\<newline>'' @ ''---\<newline>\<newline># Appendix\<newline>\<newline>## Extra\<newline>\<newline>''"
proof -
  have b: "convertDocument exDocument ''body'' =
     ''# T\<newline>\<newline>**Authors:** A. Author\<newline>\<newline>## Abstract\<newline>\<newline>Short.\<newline>\<newline>## Intro\<newline>\<newline>''"
    unfolding exDocument_def by code_simp
  have r: "extractReferences exDocument = ''## References\<newline>\<newline>''"
    unfolding exDocument_def by code_simp
  have x: "appendixBlock exDocument = ''---\<newline>\<newline># Appendix\<newline>\<newline>## Extra\<newline>\<newline>''"
    unfolding exDocument_def by code_simp
  from b r x body_prefix_of_all [of exDocument] show ?thesis
    by simp
qed

text \<open>
  C9. At the level \<open>abstract\<close> the heading \<open>## Abstract\<close> is always written, followed by the
  extracted abstract and a newline; without an abstract region the heading is followed
  by an empty abstract. At the levels \<open>body\<close> and \<open>all\<close> the heading and the abstract are
  written when the extracted abstract is not empty, and nothing stands between the authors
  line and the body when it is empty.
\<close>

theorem abstract_heading:
  "convertDocument doc ''abstract'' =
     titleLine doc @ authorsLine doc @ ''## Abstract\<newline>\<newline>'' @ extractAbstract doc
       @ ''\<newline>''
   \<and> (docQuerySelector doc [ByClass ''ltx_abstract''] = None \<longrightarrow>
        extractAbstract doc = []
        \<and> convertDocument doc ''abstract'' =
            titleLine doc @ authorsLine doc @ ''## Abstract\<newline>\<newline>\<newline>'')
   \<and> (extractAbstract doc = [] \<longrightarrow>
        convertDocument doc ''body'' = titleLine doc @ authorsLine doc @ extractBody doc
        \<and> convertDocument doc ''all'' =
            titleLine doc @ authorsLine doc @ extractBody doc @ extractReferences doc
              @ appendixBlock doc)
   \<and> (extractAbstract doc \<noteq> [] \<longrightarrow>
        convertDocument doc ''body'' =
            titleLine doc @ authorsLine doc
              @ ''## Abstract\<newline>\<newline>'' @ extractAbstract doc @ ''\<newline>\<newline>''
              @ extractBody doc
        \<and> convertDocument doc ''all'' =
            titleLine doc @ authorsLine doc
              @ ''## Abstract\<newline>\<newline>'' @ extractAbstract doc @ ''\<newline>\<newline>''
              @ extractBody doc @ extractReferences doc @ appendixBlock doc)"
proof -
  have "extractAbstract doc = []" if "docQuerySelector doc [ByClass ''ltx_abstract''] = None"
    using that by (simp add: extractAbstract_def)
  then show ?thesis
    by (simp add: convertDocument_abstract convertDocument_body convertDocument_all
        abstractBlock_def)
qed

theorem abstract_heading_witness:
  "docQuerySelector exBareDocument [ByClass ''ltx_abstract''] = None
   \<and> extractAbstract exBareDocument = []
   \<and> convertDocument exBareDocument ''abstract'' = ''# T\<newline>\<newline>## Abstract\<newline>\<newline>\<newline>''
   \<and> convertDocument exBareDocument ''body'' = ''# T\<newline>\<newline>## Intro\<newline>\<newline>''
   \<and> extractAbstract exDocument \<noteq> []
   \<and> convertDocument exDocument ''body'' =
       ''# T\<newline>\<newline>**Authors:** A. Author\<newline>\<newline>## Abstract\<newline>\<newline>Short.\<newline>\<newline>## Intro\<newline>\<newline>''"
proof -
  have q: "docQuerySelector exBareDocument [ByClass ''ltx_abstract''] = None"
    unfolding exBareDocument_def by code_simp
  have t: "titleLine exBareDocument = ''# T\<newline>\<newline>''"
    unfolding exBareDocument_def by code_simp
  have a: "authorsLine exBareDocument = []"
    unfolding exBareDocument_def by code_simp
  have b: "extractBody exBareDocument = ''## Intro\<newline>\<newline>''"
    unfolding exBareDocument_def by code_simp
  have t': "titleLine exDocument = ''# T\<newline>\<newline>''"
    unfolding exDocument_def by code_simp
  have a': "authorsLine exDocument = ''**Authors:** A. Author\<newline>\<newline>''"
    unfolding exDocument_def by code_simp
  have b': "extractBody exDocument = ''## Intro\<newline>\<newline>''"
    unfolding exDocument_def by code_simp
  have x': "extractAbstract exDocument = ''Short.''"
    unfolding exDocument_def by code_simp
  from q t a b abstract_heading [of exBareDocument]
  have bare: "extractAbstract exBareDocument = []
    \<and> convertDocument exBareDocument ''abstract'' = ''# T\<newline>\<newline>## Abstract\<newline>\<newline>\<newline>''
    \<and> convertDocument exBareDocument ''body'' = ''# T\<newline>\<newline>## Intro\<newline>\<newline>''"
    by simp
  from t' a' b' x' abstract_heading [of exDocument]
  have full: "convertDocument exDocument ''body'' =
       ''# T\<newline>\<newline>**Authors:** A. Author\<newline>\<newline>## Abstract\<newline>\<newline>Short.\<newline>\<newline>## Intro\<newline>\<newline>''"
    by simp
  from q bare full x' show ?thesis
    by simp
qed

section \<open>The fallback to the secondary mirror\<close>

lemma mirrors_differ: "AR5IV_BASE @ arxivId \<noteq> ARXIV_HTML_BASE @ arxivId"
  by (simp add: AR5IV_BASE_def ARXIV_HTML_BASE_def)

text \<open>
  C8, as amended. When the primary mirror answers with the status 307, the fetcher issues
  two requests in all, the one to the primary mirror and then exactly one to the secondary
  mirror. It returns the text of the secondary answer when that answer is ok and its text
  can be read; it fails with the error \<open>Paper HTML not available\<close> when the secondary
  mirror answers with a status that is not ok; and when the secondary request, or the
  reading of its text, is rejected, it fails with the reason of the rejection, passed on as
  it is. When the primary mirror answers with any other status, or the request to it is
  rejected, that request is the only one: none goes to the secondary mirror.
\<close>

theorem secondary_mirror_fallback:
  "(net \<lparr>url = AR5IV_BASE @ arxivId, redirect = Manual\<rparr> = Resolves r1 \<and> status r1 = 307 \<longrightarrow>
      snd (fetchAr5iv net arxivId log) =
        log @ [\<lparr>url = AR5IV_BASE @ arxivId, redirect = Manual\<rparr>,
               \<lparr>url = ARXIV_HTML_BASE @ arxivId, redirect = Follow\<rparr>]
      \<and> length (filter (\<lambda>r. url r = ARXIV_HTML_BASE @ arxivId)
           (drop (length log) (snd (fetchAr5iv net arxivId log)))) = 1
      \<and> (net \<lparr>url = ARXIV_HTML_BASE @ arxivId, redirect = Follow\<rparr> = Resolves r2 \<and> ok r2
            \<and> responseText r2 = Resolves html \<longrightarrow>
           fst (fetchAr5iv net arxivId log) = Inr html)
      \<and> (net \<lparr>url = ARXIV_HTML_BASE @ arxivId, redirect = Follow\<rparr> = Resolves r2 \<and> \<not> ok r2 \<longrightarrow>
           fst (fetchAr5iv net arxivId log) = Inl (PaperHtmlNotAvailable (status r2)))
      \<and> (net \<lparr>url = ARXIV_HTML_BASE @ arxivId, redirect = Follow\<rparr> = Rejects reason \<longrightarrow>
           fst (fetchAr5iv net arxivId log) = Inl (Rejected reason))
      \<and> (net \<lparr>url = ARXIV_HTML_BASE @ arxivId, redirect = Follow\<rparr> = Resolves r2 \<and> ok r2
            \<and> responseText r2 = Rejects reason \<longrightarrow>
           fst (fetchAr5iv net arxivId log) = Inl (Rejected reason)))
   \<and> (net \<lparr>url = AR5IV_BASE @ arxivId, redirect = Manual\<rparr> = Resolves r1 \<and> status r1 \<noteq> 307 \<longrightarrow>
      snd (fetchAr5iv net arxivId log) = log @ [\<lparr>url = AR5IV_BASE @ arxivId, redirect = Manual\<rparr>]
      \<and> filter (\<lambda>r. url r = ARXIV_HTML_BASE @ arxivId)
           (drop (length log) (snd (fetchAr5iv net arxivId log))) = [])
   \<and> (net \<lparr>url = AR5IV_BASE @ arxivId, redirect = Manual\<rparr> = Rejects reason \<longrightarrow>
      fetchAr5iv net arxivId log =
        (Inl (Rejected reason), log @ [\<lparr>url = AR5IV_BASE @ arxivId, redirect = Manual\<rparr>])
      \<and> filter (\<lambda>r. url r = ARXIV_HTML_BASE @ arxivId)
           (drop (length log) (snd (fetchAr5iv net arxivId log))) = [])"
  using mirrors_differ [of arxivId]
  by (auto simp: fetchAr5iv_def fetch_def returnText_def Let_def split: settled.splits)

theorem secondary_mirror_fallback_witness:
  "exFallbackNetwork \<lparr>url = AR5IV_BASE @ ''1706.03762'', redirect = Manual\<rparr>
     = Resolves \<lparr>status = 307, responseText = Resolves []\<rparr>
   \<and> exFallbackNetwork \<lparr>url = ARXIV_HTML_BASE @ ''1706.03762'', redirect = Follow\<rparr>
     = Resolves \<lparr>status = 200, responseText = Resolves ''<html></html>''\<rparr>
   \<and> ok \<lparr>status = 200, responseText = Resolves ''<html></html>''\<rparr>
   \<and> fetchAr5iv exFallbackNetwork ''1706.03762'' [] =
       (Inr ''<html></html>'',
        [\<lparr>url = AR5IV_BASE @ ''1706.03762'', redirect = Manual\<rparr>,
         \<lparr>url = ARXIV_HTML_BASE @ ''1706.03762'', redirect = Follow\<rparr>])
   \<and> exMissingNetwork \<lparr>url = ARXIV_HTML_BASE @ ''1706.03762'', redirect = Follow\<rparr>
     = Resolves \<lparr>status = 404, responseText = Resolves ''not found''\<rparr>
   \<and> \<not> ok \<lparr>status = 404, responseText = Resolves ''not found''\<rparr>
   \<and> fst (fetchAr5iv exMissingNetwork ''1706.03762'' []) = Inl (PaperHtmlNotAvailable 404)
   \<and> exDirectNetwork \<lparr>url = AR5IV_BASE @ ''1706.03762'', redirect = Manual\<rparr>
     = Resolves \<lparr>status = 200, responseText = Resolves ''<html></html>''\<rparr>
   \<and> snd (fetchAr5iv exDirectNetwork ''1706.03762'' []) =
       [\<lparr>url = AR5IV_BASE @ ''1706.03762'', redirect = Manual\<rparr>]
   \<and> exOfflineNetwork \<lparr>url = AR5IV_BASE @ ''1706.03762'', redirect = Manual\<rparr>
     = Rejects ''fetch failed''
   \<and> fetchAr5iv exOfflineNetwork ''1706.03762'' [] =
       (Inl (Rejected ''fetch failed''),
        [\<lparr>url = AR5IV_BASE @ ''1706.03762'', redirect = Manual\<rparr>])"
proof -
  have f: "exFallbackNetwork \<lparr>url = AR5IV_BASE @ ''1706.03762'', redirect = Manual\<rparr>
      = Resolves \<lparr>status = 307, responseText = Resolves []\<rparr>"
    "exFallbackNetwork \<lparr>url = ARXIV_HTML_BASE @ ''1706.03762'', redirect = Follow\<rparr>
      = Resolves \<lparr>status = 200, responseText = Resolves ''<html></html>''\<rparr>"
    by (simp_all add: exFallbackNetwork_def)
  have m: "exMissingNetwork \<lparr>url = AR5IV_BASE @ ''1706.03762'', redirect = Manual\<rparr>
      = Resolves \<lparr>status = 307, responseText = Resolves []\<rparr>"
    "exMissingNetwork \<lparr>url = ARXIV_HTML_BASE @ ''1706.03762'', redirect = Follow\<rparr>
      = Resolves \<lparr>status = 404, responseText = Resolves ''not found''\<rparr>"
    by (simp_all add: exMissingNetwork_def)
  have d: "exDirectNetwork \<lparr>url = AR5IV_BASE @ ''1706.03762'', redirect = Manual\<rparr>
      = Resolves \<lparr>status = 200, responseText = Resolves ''<html></html>''\<rparr>"
    by (simp add: exDirectNetwork_def)
  have o: "exOfflineNetwork \<lparr>url = AR5IV_BASE @ ''1706.03762'', redirect = Manual\<rparr>
      = Rejects ''fetch failed''"
    by (simp add: exOfflineNetwork_def)
  have k: "ok \<lparr>status = 200, responseText = Resolves ''<html></html>''\<rparr>"
    "\<not> ok \<lparr>status = 404, responseText = Resolves ''not found''\<rparr>"
    by (simp_all add: ok_def)
  from f k
    secondary_mirror_fallback [of exFallbackNetwork "''1706.03762''"
      "\<lparr>status = 307, responseText = Resolves []\<rparr>" "[]"
      "\<lparr>status = 200, responseText = Resolves ''<html></html>''\<rparr>" "''<html></html>''"]
  have 1: "fetchAr5iv exFallbackNetwork ''1706.03762'' [] =
       (Inr ''<html></html>'',
        [\<lparr>url = AR5IV_BASE @ ''1706.03762'', redirect = Manual\<rparr>,
         \<lparr>url = ARXIV_HTML_BASE @ ''1706.03762'', redirect = Follow\<rparr>])"
    by (simp add: prod_eq_iff)
  from m k
    secondary_mirror_fallback [of exMissingNetwork "''1706.03762''"
      "\<lparr>status = 307, responseText = Resolves []\<rparr>" "[]"
      "\<lparr>status = 404, responseText = Resolves ''not found''\<rparr>"]
  have 2: "fst (fetchAr5iv exMissingNetwork ''1706.03762'' []) = Inl (PaperHtmlNotAvailable 404)"
    by simp
  from d
    secondary_mirror_fallback [of exDirectNetwork "''1706.03762''"
      "\<lparr>status = 200, responseText = Resolves ''<html></html>''\<rparr>" "[]"]
  have 3: "snd (fetchAr5iv exDirectNetwork ''1706.03762'' []) =
       [\<lparr>url = AR5IV_BASE @ ''1706.03762'', redirect = Manual\<rparr>]"
    by simp
  from o
    secondary_mirror_fallback [of exOfflineNetwork "''1706.03762''" _ "[]" _ _ "''fetch failed''"]
  have 4: "fetchAr5iv exOfflineNetwork ''1706.03762'' [] =
       (Inl (Rejected ''fetch failed''),
        [\<lparr>url = AR5IV_BASE @ ''1706.03762'', redirect = Manual\<rparr>])"
    by simp
  from f(1,2) m(2) d o k 1 2 3 4 show ?thesis
    by blast
qed

text \<open>
  C8 as the specification states it fails when the primary mirror answers with 307 and
  the request to the secondary mirror is rejected: one request goes to the secondary
  mirror, no text is returned, and the failure is the reason of the rejection, not the
  error \<open>Paper HTML not available\<close>.
\<close>

theorem secondary_mirror_fallback_counterexample:
  "exUnreachableNetwork \<lparr>url = AR5IV_BASE @ ''1706.03762'', redirect = Manual\<rparr>
     = Resolves \<lparr>status = 307, responseText = Resolves []\<rparr>
   \<and> snd (fetchAr5iv exUnreachableNetwork ''1706.03762'' []) =
       [\<lparr>url = AR5IV_BASE @ ''1706.03762'', redirect = Manual\<rparr>,
        \<lparr>url = ARXIV_HTML_BASE @ ''1706.03762'', redirect = Follow\<rparr>]
   \<and> fst (fetchAr5iv exUnreachableNetwork ''1706.03762'' []) = Inl (Rejected ''fetch failed'')
   \<and> \<not> paperHtmlNotAvailable (fst (fetchAr5iv exUnreachableNetwork ''1706.03762'' []))"
  by (simp add: fetchAr5iv_def fetch_def Let_def exUnreachableNetwork_def
      paperHtmlNotAvailable_def)

end
